theory Spec2Isabelle
  imports Main "HOL-Library.Sublist"
begin

section \<open>The values of the host language\<close>

text \<open>
  The library is TypeScript; at run time its payloads are arbitrary JavaScript values.
  The program looks at a payload in three ways only: \<open>Number.isNaN\<close>,
  \<open>instanceof Error\<close>, and string conversion inside a template literal. The value type
  below keeps what these three observe.

  A number is the not-a-number value, an infinity, an integer of magnitude at most
  \<open>2^53\<close> (printed by the host as its decimal digits), or any other finite double,
  which is named by the string the host prints for it; no operation of the program
  computes with numbers. An error object has its class, its \<open>name\<close> and its \<open>message\<close>, and is
  rendered by the inherited \<open>Error.prototype.toString\<close>. Any other object is given by
  what its string conversion does: it returns a string, or it throws a value
  (\<open>Object.create(null)\<close> has no conversion at all; a user \<open>toString\<close> may throw).
  Objects are never mutated by the program, so an object is the term that describes it,
  and handing an object on unchanged is handing on the same term.
\<close>

datatype jsnum = NaN | PosInfinity | NegInfinity | Finite int | OtherFinite string

datatype errclass =
    Error_class
  | TypeError_class
  | UnwrappedFailError_class
  | ExpectFailError_class
  | NaNError_class
  | ResultifyFailError_class
  | Other_class string

datatype jsval =
    JUndefined
  | JNull
  | JBoolean bool
  | JNumber jsnum
  | JBigInt int
  | JString string
  | JSymbol string
  | JError errclass string string
  | JObject "jsval + string"

text \<open>
  A call either returns a value or throws one: \<open>Inr v\<close> is normal completion with \<open>v\<close>,
  \<open>Inl e\<close> is \<open>throw e\<close>. \<open>seq\<close> runs a continuation after a normal completion and
  lets a thrown value pass.
\<close>

type_synonym 'a completion = "jsval + 'a"

definition seq :: "'a completion \<Rightarrow> ('a \<Rightarrow> 'b completion) \<Rightarrow> 'b completion" where
  "seq c k = (case c of Inl e \<Rightarrow> Inl e | Inr v \<Rightarrow> k v)"

subsection \<open>String conversion\<close>

fun digits :: "nat \<Rightarrow> string" where
  "digits n =
     (if n < 10 then [''0123456789'' ! n]
      else digits (n div 10) @ [''0123456789'' ! (n mod 10)])"

declare digits.simps [simp del]

definition decimal :: "int \<Rightarrow> string" where
  "decimal i = (if i < 0 then CHR ''-'' # digits (nat (- i)) else digits (nat i))"

fun NumberToString :: "jsnum \<Rightarrow> string" where
  "NumberToString NaN = ''NaN''"
| "NumberToString PosInfinity = ''Infinity''"
| "NumberToString NegInfinity = ''-Infinity''"
| "NumberToString (Finite i) = decimal i"
| "NumberToString (OtherFinite s) = s"

definition ErrorToString :: "string \<Rightarrow> string \<Rightarrow> string" where
  \<comment> \<open>\<open>Error.prototype.toString\<close>: an empty name or message leaves the other alone.\<close>
  "ErrorToString nm msg =
     (if nm = [] then msg else if msg = [] then nm else nm @ '': '' @ msg)"

text \<open>
  \<open>ToString\<close> is the conversion a template literal applies to each substituted value.
  It is defined for every primitive value but a symbol, for which the host throws a
  \<open>TypeError\<close>; for an object it is whatever the object's own conversion does.
\<close>

fun ToString :: "jsval \<Rightarrow> string completion" where
  "ToString JUndefined = Inr ''undefined''"
| "ToString JNull = Inr ''null''"
| "ToString (JBoolean b) = Inr (if b then ''true'' else ''false'')"
| "ToString (JNumber x) = Inr (NumberToString x)"
| "ToString (JBigInt i) = Inr (decimal i)"
| "ToString (JString s) = Inr s"
| "ToString (JSymbol d) =
     Inl (JError TypeError_class ''TypeError'' ''Cannot convert a Symbol value to a string'')"
| "ToString (JError c nm msg) = Inr (ErrorToString nm msg)"
| "ToString (JObject conv) = conv"

definition template :: "string \<Rightarrow> jsval \<Rightarrow> string \<Rightarrow> string completion" where
  \<comment> \<open>The template literal \<open>`pre${v}post`\<close>.\<close>
  "template pre v post = seq (ToString v) (\<lambda>s. Inr (pre @ s @ post))"

fun Number_isNaN :: "jsval \<Rightarrow> bool" where
  "Number_isNaN (JNumber NaN) = True"
| "Number_isNaN v = False"

fun instanceof_Error :: "jsval \<Rightarrow> bool" where
  "instanceof_Error (JError c nm msg) = True"
| "instanceof_Error v = False"

fun err_class :: "jsval \<Rightarrow> errclass option" where
  "err_class (JError c nm msg) = Some c"
| "err_class v = None"

fun err_name :: "jsval \<Rightarrow> string option" where
  "err_name (JError c nm msg) = Some nm"
| "err_name v = None"

fun err_message :: "jsval \<Rightarrow> string option" where
  "err_message (JError c nm msg) = Some msg"
| "err_message v = None"

section \<open>The failure kinds\<close>

text \<open>
  Each class extends \<open>Error\<close>. Three of them build their message from a template literal
  over the value they are given, so constructing one converts that value to a string; the
  fourth, \<open>NaNError\<close>, calls \<open>super()\<close> with no message.
\<close>

definition UnwrappedFailError :: "jsval \<Rightarrow> jsval completion" where
  "UnwrappedFailError err =
     seq (template ''Attempted to unwrap Fail with inner error = '' err '')'')
       (\<lambda>msg. Inr (JError UnwrappedFailError_class ''UnwrappedFailError'' msg))"

definition ExpectFailError :: "jsval \<Rightarrow> jsval completion" where
  "ExpectFailError val =
     seq (template ''Expected variant Fail, got Pass with inner value = '' val '')'')
       (\<lambda>msg. Inr (JError ExpectFailError_class ''ExpectFailError'' msg))"

definition NaNError :: jsval where
  "NaNError = JError NaNError_class ''NaNError'' []"

definition ResultifyFailError :: "jsval \<Rightarrow> jsval completion" where
  "ResultifyFailError v =
     seq (template ''Failed resultify threw non-error value: '' v [])
       (\<lambda>msg. Inr (JError ResultifyFailError_class ''ResultifyFailError'' msg))"

section \<open>Result\<close>

datatype result = Pass jsval | Fail jsval

fun passed :: "result \<Rightarrow> bool" where
  "passed (Pass v) = True"
| "passed (Fail e) = False"

fun unwrap :: "result \<Rightarrow> jsval completion" where
  "unwrap (Pass v) = Inr v"
| "unwrap (Fail e) = seq (UnwrappedFailError e) Inl"

fun expectFail :: "result \<Rightarrow> jsval completion" where
  "expectFail (Pass v) = seq (ExpectFailError v) Inl"
| "expectFail (Fail e) = Inr e"

definition failed :: "result \<Rightarrow> bool" where
  "failed r = (\<not> passed r)"

definition into :: "result \<Rightarrow> result completion" where
  "into r =
     (if passed r then seq (unwrap r) (\<lambda>v. Inr (Pass v))
      else seq (expectFail r) (\<lambda>e. Inr (Fail e)))"

definition map_result :: "(jsval \<Rightarrow> jsval completion) \<Rightarrow> result \<Rightarrow> result completion" where
  "map_result f r =
     (if passed r then seq (seq (unwrap r) f) (\<lambda>u. Inr (Pass u))
      else seq (expectFail r) (\<lambda>e. Inr (Fail e)))"

definition flatMap :: "(jsval \<Rightarrow> result completion) \<Rightarrow> result \<Rightarrow> result completion" where
  "flatMap f r =
     (if passed r then seq (unwrap r) f
      else seq (expectFail r) (\<lambda>e. Inr (Fail e)))"

definition flatMapErr :: "(jsval \<Rightarrow> result completion) \<Rightarrow> result \<Rightarrow> result completion" where
  "flatMapErr f r =
     (if failed r then seq (expectFail r) f
      else seq (unwrap r) (\<lambda>v. Inr (Pass v)))"

definition mapErr :: "(jsval \<Rightarrow> jsval completion) \<Rightarrow> result \<Rightarrow> result completion" where
  "mapErr f r =
     (if failed r then seq (seq (expectFail r) f) (\<lambda>x. Inr (Fail x))
      else seq (unwrap r) (\<lambda>v. Inr (Pass v)))"

definition nullify :: "result \<Rightarrow> jsval completion" where
  "nullify r = (if passed r then unwrap r else Inr JUndefined)"

definition andThen :: "(jsval \<Rightarrow> result completion) \<Rightarrow> result \<Rightarrow> result completion" where
  \<comment> \<open>\<open>andThen = this.flatMap\<close>; the documented copy of the file has the same body under this name.\<close>
  "andThen = flatMap"

definition orElse :: "(jsval \<Rightarrow> result completion) \<Rightarrow> result \<Rightarrow> result completion" where
  "orElse = flatMapErr"

definition match :: "(jsval \<Rightarrow> 'r completion) \<Rightarrow> (jsval \<Rightarrow> 'r completion) \<Rightarrow> result \<Rightarrow> 'r completion" where
  "match onPass onFail r =
     (if passed r then seq (unwrap r) onPass else seq (expectFail r) onFail)"

section \<open>The adapters\<close>

text \<open>
  The caller's function is an external collaborator: \<open>f args\<close> is the completion of the
  call \<open>f(...args)\<close>. \<open>resultify_try\<close> is the \<open>try\<close> block and \<open>resultify_catch\<close> the
  \<open>catch\<close> block of \<open>resultify\<close>; what the \<open>catch\<close> block throws leaves the function.
\<close>

definition resultify_try :: "('a \<Rightarrow> jsval completion) \<Rightarrow> 'a \<Rightarrow> result completion" where
  "resultify_try f args =
     seq (f args) (\<lambda>res. if Number_isNaN res then Inl NaNError else Inr (Pass res))"

definition resultify_catch :: "jsval \<Rightarrow> result completion" where
  "resultify_catch err =
     (if instanceof_Error err then Inr (Fail err)
      else seq (ResultifyFailError err) (\<lambda>e. Inr (Fail e)))"

definition resultify :: "('a \<Rightarrow> jsval completion) \<Rightarrow> 'a \<Rightarrow> result completion" where
  "resultify f args =
     (case resultify_try f args of Inl err \<Rightarrow> resultify_catch err | Inr r \<Rightarrow> Inr r)"

text \<open>
  The two closures \<open>resultifyPromise\<close> hands to \<open>resultify\<close>: \<open>() => value\<close> and
  \<open>() => {throw err;}\<close>.
\<close>

definition returning :: "jsval \<Rightarrow> unit \<Rightarrow> jsval completion" where
  "returning v u = Inr v"

definition throwing :: "jsval \<Rightarrow> unit \<Rightarrow> jsval completion" where
  "throwing err u = Inl err"

text \<open>
  A promise is modelled by how it settles, if it does. \<open>promise_then\<close> and
  \<open>promise_catch\<close> are the host's \<open>.then(onFulfilled)\<close> and \<open>.catch(onRejected)\<close> for
  handlers that return plain (non-thenable) values: a handler that throws rejects the
  derived promise. \<open>async_function\<close> is the wrapper of an \<open>async\<close> function body that
  returns a promise: a body that throws gives a rejected promise.
\<close>

datatype 'a promise = Pending | Fulfilled 'a | Rejected jsval

fun promise_then :: "'a promise \<Rightarrow> ('a \<Rightarrow> 'b completion) \<Rightarrow> 'b promise" where
  "promise_then Pending k = Pending"
| "promise_then (Rejected e) k = Rejected e"
| "promise_then (Fulfilled v) k = (case k v of Inl e \<Rightarrow> Rejected e | Inr x \<Rightarrow> Fulfilled x)"

fun promise_catch :: "'a promise \<Rightarrow> (jsval \<Rightarrow> 'a completion) \<Rightarrow> 'a promise" where
  "promise_catch Pending k = Pending"
| "promise_catch (Fulfilled x) k = Fulfilled x"
| "promise_catch (Rejected e) k = (case k e of Inl t \<Rightarrow> Rejected t | Inr x \<Rightarrow> Fulfilled x)"

fun async_function :: "('a promise) completion \<Rightarrow> 'a promise" where
  "async_function (Inl e) = Rejected e"
| "async_function (Inr p) = p"

definition resultifyPromise ::
  "('a \<Rightarrow> (jsval promise) completion) \<Rightarrow> 'a \<Rightarrow> result promise" where
  "resultifyPromise asyncFn args =
     async_function
       (seq (asyncFn args) (\<lambda>p.
          Inr (promise_catch
                 (promise_then p (\<lambda>v.
                    seq (resultify (returning v) ())
                      (\<lambda>r. if failed r then Inl v else Inr (Pass v))))
                 (\<lambda>err. resultify (throwing err) ()))))"

text \<open>
  Callers of the asynchronous adapter: an \<open>async\<close> function that resolves with \<open>v\<close>,
  one that rejects with \<open>e\<close>, and a plain function of type \<open>() => Promise<T>\<close> that
  throws \<open>e\<close> before it has a promise to return.
\<close>

definition resolving :: "jsval \<Rightarrow> unit \<Rightarrow> (jsval promise) completion" where
  "resolving v u = Inr (Fulfilled v)"

definition rejecting :: "jsval \<Rightarrow> unit \<Rightarrow> (jsval promise) completion" where
  "rejecting e u = Inr (Rejected e)"

definition throwing_early :: "jsval \<Rightarrow> unit \<Rightarrow> (jsval promise) completion" where
  "throwing_early e u = Inl e"

fun is_Number :: "jsval \<Rightarrow> bool" where
  "is_Number (JNumber x) = True"
| "is_Number v = False"

section \<open>Basic facts\<close>

lemma seq_Inr [simp]: "seq (Inr v) k = k v"
  by (simp add: seq_def)

lemma seq_Inl [simp]: "seq (Inl e) k = Inl e"
  by (simp add: seq_def)

lemma seq_assoc: "seq (seq c f) g = seq c (\<lambda>x. seq (f x) g)"
  by (cases c) simp_all

lemma flatMap_Pass [simp]: "flatMap f (Pass v) = f v"
  by (simp add: flatMap_def)

lemma flatMap_Fail [simp]: "flatMap f (Fail e) = Inr (Fail e)"
  by (simp add: flatMap_def)

lemma rendering_in_message: "sublist s (pre @ s @ post)"
  by (rule sublist_appendI)

lemmas adapter_defs = resultify_def resultify_try_def resultify_catch_def
  ResultifyFailError_def template_def NaNError_def returning_def throwing_def

section \<open>The variant predicates\<close>

text \<open>
  C7. \<open>passed\<close> and \<open>failed\<close> are complementary on every result: a \<open>Pass\<close> has passed
  and has not failed, a \<open>Fail\<close> has failed and has not passed, and for any result
  \<open>failed\<close> is the negation of \<open>passed\<close>, so the two are never both true.
\<close>

theorem passed_failed_complementary:
  "passed (Pass v) \<and> \<not> failed (Pass v) \<and>
   \<not> passed (Fail e) \<and> failed (Fail e) \<and>
   failed r = (\<not> passed r) \<and> \<not> (passed r \<and> failed r)"
  by (simp add: failed_def)

section \<open>Sequencing\<close>

text \<open>
  C8. Chaining is associative: for every result \<open>a\<close> and functions \<open>f\<close>, \<open>g\<close>, running
  \<open>a.flatMap(f).flatMap(g)\<close> completes exactly as \<open>a.flatMap(x => f(x).flatMap(g))\<close>
  does, with the same variant and payload (or the same thrown value, when \<open>f\<close> or \<open>g\<close>
  throws); the same holds under the name \<open>andThen\<close>.
\<close>

theorem flatMap_assoc:
  "seq (flatMap f a) (flatMap g) = flatMap (\<lambda>x. seq (f x) (flatMap g)) a \<and>
   seq (andThen f a) (andThen g) = andThen (\<lambda>x. seq (f x) (andThen g)) a"
  by (cases a) (simp_all add: andThen_def)

section \<open>The silent accessor\<close>

text \<open>
  C10. \<open>nullify\<close> cannot tell a success that holds \<open>undefined\<close> from a failure:
  \<open>Pass(undefined).nullify()\<close> returns \<open>undefined\<close>, and so does \<open>Fail(e).nullify()\<close>
  for every \<open>e\<close>.
\<close>

theorem nullify_Pass_undefined_eq_Fail:
  "nullify (Pass JUndefined) = Inr JUndefined \<and>
   nullify (Pass JUndefined) = nullify (Fail e)"
  by (simp add: nullify_def)

section \<open>The accessors that signal\<close>

text \<open>
  The matching accessor returns the payload. The mismatched accessor never returns: it
  throws the misuse error whenever the payload can be converted to a string, and otherwise
  throws what the conversion throws.
\<close>

lemma unwrap_Pass: "unwrap (Pass v) = Inr v"
  by simp

lemma expectFail_Fail: "expectFail (Fail e) = Inr e"
  by simp

lemma unwrap_Fail_printable:
  "ToString e = Inr s \<Longrightarrow>
   unwrap (Fail e) =
     Inl (JError UnwrappedFailError_class ''UnwrappedFailError''
            (''Attempted to unwrap Fail with inner error = '' @ s @ '')''))"
  by (simp add: UnwrappedFailError_def template_def)

lemma expectFail_Pass_printable:
  "ToString v = Inr s \<Longrightarrow>
   expectFail (Pass v) =
     Inl (JError ExpectFailError_class ''ExpectFailError''
            (''Expected variant Fail, got Pass with inner value = '' @ s @ '')''))"
  by (simp add: ExpectFailError_def template_def)

lemma unwrap_Fail_unprintable: "ToString e = Inl t \<Longrightarrow> unwrap (Fail e) = Inl t"
  by (simp add: UnwrappedFailError_def template_def)

lemma expectFail_Pass_unprintable: "ToString v = Inl t \<Longrightarrow> expectFail (Pass v) = Inl t"
  by (simp add: ExpectFailError_def template_def)

lemma accessors_never_return_on_mismatch:
  "unwrap (Fail e) \<noteq> Inr x \<and> expectFail (Pass v) \<noteq> Inr y"
  by (cases "ToString e"; cases "ToString v")
     (simp_all add: UnwrappedFailError_def ExpectFailError_def template_def)

text \<open>
  C5. On a payload that is a symbol the mismatched accessor does not signal its misuse
  error: building the error's message converts the payload to a string, which throws a
  \<open>TypeError\<close>, so \<open>new Fail(Symbol("x")).unwrap()\<close> and
  \<open>new Pass(Symbol("x")).expectFail()\<close> both throw that \<open>TypeError\<close>.
\<close>

theorem mismatched_accessor_on_symbol:
  "unwrap (Fail (JSymbol ''x'')) =
     Inl (JError TypeError_class ''TypeError'' ''Cannot convert a Symbol value to a string'') \<and>
   expectFail (Pass (JSymbol ''x'')) =
     Inl (JError TypeError_class ''TypeError'' ''Cannot convert a Symbol value to a string'')"
  by (simp add: UnwrappedFailError_def ExpectFailError_def template_def)

section \<open>The synchronous adapter\<close>

lemma resultify_returns:
  "f args = Inr v \<Longrightarrow> \<not> Number_isNaN v \<Longrightarrow> resultify f args = Inr (Pass v)"
  by (simp add: resultify_def resultify_try_def)

lemma resultify_returns_NaN:
  "f args = Inr (JNumber NaN) \<Longrightarrow> resultify f args = Inr (Fail NaNError)"
  by (simp add: resultify_def resultify_try_def resultify_catch_def NaNError_def)

lemma resultify_throws_Error:
  "f args = Inl e \<Longrightarrow> instanceof_Error e \<Longrightarrow> resultify f args = Inr (Fail e)"
  by (simp add: resultify_def resultify_try_def resultify_catch_def)

lemma resultify_throws_printable:
  "f args = Inl x \<Longrightarrow> \<not> instanceof_Error x \<Longrightarrow> ToString x = Inr s \<Longrightarrow>
   resultify f args =
     Inr (Fail (JError ResultifyFailError_class ''ResultifyFailError''
                  (''Failed resultify threw non-error value: '' @ s)))"
  by (simp add: resultify_def resultify_try_def resultify_catch_def ResultifyFailError_def
      template_def)

lemma resultify_message_contains:
  "f args = Inl x \<Longrightarrow> \<not> instanceof_Error x \<Longrightarrow> ToString x = Inr s \<Longrightarrow>
   \<exists>e m. resultify f args = Inr (Fail e) \<and> err_class e = Some ResultifyFailError_class \<and>
     err_message e = Some m \<and> sublist s m"
  using rendering_in_message [of s "''Failed resultify threw non-error value: ''" "[]"]
  by (simp add: resultify_throws_printable)

lemma resultify_throws_unprintable:
  "f args = Inl x \<Longrightarrow> \<not> instanceof_Error x \<Longrightarrow> ToString x = Inl t \<Longrightarrow>
   resultify f args = Inl t"
  by (simp add: resultify_def resultify_try_def resultify_catch_def ResultifyFailError_def
      template_def)

lemma resultify_examples:
  "resultify (returning (JNumber (Finite 42))) () = Inr (Pass (JNumber (Finite 42))) \<and>
   resultify (throwing (JString ''boom'')) () =
     Inr (Fail (JError ResultifyFailError_class ''ResultifyFailError''
                  ''Failed resultify threw non-error value: boom'')) \<and>
   resultify (returning (JNumber NaN)) () = Inr (Fail NaNError)"
  by (simp add: adapter_defs)

text \<open>
  C2. A thrown value that is not an \<open>Error\<close> is not always wrapped: the \<open>catch\<close> block
  builds the \<open>ResultifyFailError\<close> message with a template literal, and for a thrown
  symbol that conversion throws. \<open>resultify(() => { throw Symbol("boom") })\<close> returns
  nothing and throws a \<open>TypeError\<close>.
\<close>

theorem resultify_throw_symbol:
  "resultify (throwing (JSymbol ''boom'')) () =
     Inl (JError TypeError_class ''TypeError'' ''Cannot convert a Symbol value to a string'')"
  by (simp add: adapter_defs)

text \<open>
  C6, as stated, at a function that throws a \<open>NaNError\<close> of its own: the adapter yields
  \<open>Fail(NaNError)\<close> although the function did not return, so it did not return the
  not-a-number value.
\<close>

theorem resultify_NaNError_without_NaN:
  "resultify (throwing NaNError) () = Inr (Fail NaNError) \<and>
   throwing NaNError () \<noteq> Inr (JNumber NaN)"
  by (simp add: adapter_defs)

text \<open>
  C6, amended. \<open>resultify(f, ...args)\<close> yields a \<open>Fail\<close> that carries a \<open>NaNError\<close> if
  and only if \<open>f\<close> returns the numeric not-a-number value or \<open>f\<close> itself throws a
  \<open>NaNError\<close> (which is passed through like any other error). When \<open>f\<close> returns the
  not-a-number value the result is \<open>Fail(NaNError)\<close>, and a return value that is not a
  number is never classified as a failure: it comes back as \<open>Pass\<close> of that value.
\<close>

theorem resultify_NaNError_iff:
  "((\<exists>e. resultify f args = Inr (Fail e) \<and> err_class e = Some NaNError_class) =
      (f args = Inr (JNumber NaN) \<or>
       (\<exists>e. f args = Inl e \<and> err_class e = Some NaNError_class))) \<and>
   (f args = Inr (JNumber NaN) \<longrightarrow> resultify f args = Inr (Fail NaNError)) \<and>
   (\<forall>v. f args = Inr v \<and> \<not> is_Number v \<longrightarrow> resultify f args = Inr (Pass v))"
proof (intro conjI allI impI)
  show "(\<exists>e. resultify f args = Inr (Fail e) \<and> err_class e = Some NaNError_class) =
      (f args = Inr (JNumber NaN) \<or>
       (\<exists>e. f args = Inl e \<and> err_class e = Some NaNError_class))"
  proof (cases "f args")
    case (Inr v)
    show ?thesis
    proof (cases "Number_isNaN v")
      case True
      then have "v = JNumber NaN"
        by (cases v rule: Number_isNaN.cases) simp_all
      with Inr show ?thesis
        by (simp add: resultify_returns_NaN NaNError_def)
    next
      case False
      then have "v \<noteq> JNumber NaN" by auto
      with Inr False show ?thesis
        by (simp add: resultify_returns)
    qed
  next
    case thrown: (Inl x)
    show ?thesis
    proof (cases "instanceof_Error x")
      case True
      with thrown show ?thesis
        by (simp add: resultify_throws_Error)
    next
      case False
      then have other: "err_class x \<noteq> Some NaNError_class"
        by (cases x) simp_all
      show ?thesis
      proof (cases "ToString x")
        case (Inl t)
        with thrown False other show ?thesis
          by (simp add: resultify_throws_unprintable)
      next
        case (Inr s)
        with thrown False other show ?thesis
          by (simp add: resultify_throws_printable)
      qed
    qed
  qed
next
  assume "f args = Inr (JNumber NaN)"
  then show "resultify f args = Inr (Fail NaNError)"
    by (rule resultify_returns_NaN)
next
  fix v
  assume "f args = Inr v \<and> \<not> is_Number v"
  then have "f args = Inr v" and "\<not> Number_isNaN v"
    by (cases v; simp)+
  then show "resultify f args = Inr (Pass v)"
    by (rule resultify_returns)
qed

theorem resultify_NaNError_iff_witness:
  "resultify (returning (JNumber NaN)) () = Inr (Fail NaNError) \<and>
   resultify (returning (JString ''NaN'')) () = Inr (Pass (JString ''NaN'')) \<and>
   \<not> is_Number (JString ''NaN'')"
  using resultify_NaNError_iff [of "returning (JNumber NaN)" "()"]
    resultify_NaNError_iff [of "returning (JString ''NaN'')" "()"]
  by (simp add: returning_def)

section \<open>The asynchronous adapter\<close>

lemma resultifyPromise_resolves:
  "asyncFn args = Inr (Fulfilled v) \<Longrightarrow> \<not> Number_isNaN v \<Longrightarrow>
   resultifyPromise asyncFn args = Fulfilled (Pass v)"
  by (simp add: resultifyPromise_def resultify_returns returning_def failed_def)

lemma resultifyPromise_rejects:
  "asyncFn args = Inr (Rejected e) \<Longrightarrow>
   resultifyPromise asyncFn args =
     (case resultify (throwing e) () of Inl t \<Rightarrow> Rejected t | Inr r \<Rightarrow> Fulfilled r)"
  by (simp add: resultifyPromise_def)

lemma resultifyPromise_rejects_Error:
  "asyncFn args = Inr (Rejected e) \<Longrightarrow> instanceof_Error e \<Longrightarrow>
   resultifyPromise asyncFn args = Fulfilled (Fail e)"
  by (simp add: resultifyPromise_rejects resultify_throws_Error throwing_def)

lemma resultifyPromise_pending:
  "asyncFn args = Inr Pending \<Longrightarrow> resultifyPromise asyncFn args = Pending"
  by (simp add: resultifyPromise_def)

lemma resultifyPromise_throws_early:
  "asyncFn args = Inl e \<Longrightarrow> resultifyPromise asyncFn args = Rejected e"
  by (simp add: resultifyPromise_def)

lemma resultifyPromise_examples:
  "resultifyPromise (resolving (JNumber (Finite 7))) () = Fulfilled (Pass (JNumber (Finite 7))) \<and>
   resultifyPromise (rejecting (JString ''x'')) () =
     Fulfilled (Fail (JError ResultifyFailError_class ''ResultifyFailError''
                        ''Failed resultify threw non-error value: x''))"
  by (simp add: resultifyPromise_def resolving_def rejecting_def adapter_defs failed_def)

text \<open>
  C1. A promise that resolves with the not-a-number value does not end as
  \<open>Fail(NaNError)\<close>. The \<open>then\<close> handler sees that \<open>resultify\<close> failed, drops the
  \<open>NaNError\<close> and throws the resolved value itself; the \<open>catch\<close> handler then wraps that
  number as a thrown non-error, so the result is \<open>Fail(ResultifyFailError)\<close> with the
  message ending in \<open>NaN\<close>.
\<close>

theorem resultifyPromise_NaN_resolution:
  "resultifyPromise (resolving (JNumber NaN)) () =
     Fulfilled (Fail (JError ResultifyFailError_class ''ResultifyFailError''
                        ''Failed resultify threw non-error value: NaN'')) \<and>
   resultifyPromise (resolving (JNumber NaN)) () \<noteq> Fulfilled (Fail NaNError)"
  by (simp add: resultifyPromise_def resolving_def adapter_defs failed_def)

text \<open>
  C3. A rejection with a symbol does not yield a future resolving to a \<open>Fail\<close>: the
  \<open>catch\<close> handler calls \<open>resultify\<close>, which throws the \<open>TypeError\<close> of the failed string
  conversion, and the returned promise rejects with it.
\<close>

theorem resultifyPromise_reject_symbol:
  "resultifyPromise (rejecting (JSymbol ''x'')) () =
     Rejected (JError TypeError_class ''TypeError'' ''Cannot convert a Symbol value to a string'')"
  by (simp add: resultifyPromise_def rejecting_def adapter_defs)

text \<open>
  C4. Raised values do leave the adapters. \<open>resultify\<close> of a function that throws an
  object with no string conversion (\<open>Object.create(null)\<close>) throws the conversion's
  \<open>TypeError\<close>; \<open>resultifyPromise\<close> of a function that throws before it returns its
  promise gives a promise rejected with the thrown value.
\<close>

theorem adapters_let_values_escape:
  "resultify
     (throwing (JObject
        (Inl (JError TypeError_class ''TypeError'' ''Cannot convert object to primitive value''))))
     () =
     Inl (JError TypeError_class ''TypeError'' ''Cannot convert object to primitive value'') \<and>
   resultifyPromise (throwing_early (JError Error_class ''Error'' ''boom'')) () =
     Rejected (JError Error_class ''Error'' ''boom'')"
  by (simp add: resultifyPromise_def throwing_early_def adapter_defs)

section \<open>Names and messages of the failure kinds\<close>

text \<open>
  C9, as stated, at \<open>NaNError\<close>: its constructor calls \<open>super()\<close> with no argument, so a
  constructed \<open>NaNError\<close> has the name \<open>NaNError\<close> and the empty message.
\<close>

theorem NaNError_message_empty:
  "err_name NaNError = Some ''NaNError'' \<and> err_message NaNError = Some []"
  by (simp add: NaNError_def)

text \<open>
  C9, amended. Every failure kind has its own fixed name. \<open>UnwrappedFailError\<close>,
  \<open>ExpectFailError\<close> and \<open>ResultifyFailError\<close>, when constructed, have a non-empty
  message; the message of \<open>NaNError\<close> is the empty string.
\<close>

theorem failure_kinds_name_and_message:
  "err_name NaNError = Some ''NaNError'' \<and> err_message NaNError = Some [] \<and>
   (UnwrappedFailError v = Inr e1 \<longrightarrow>
      err_name e1 = Some ''UnwrappedFailError'' \<and>
      (\<exists>m. err_message e1 = Some m \<and> m \<noteq> [])) \<and>
   (ExpectFailError v = Inr e2 \<longrightarrow>
      err_name e2 = Some ''ExpectFailError'' \<and>
      (\<exists>m. err_message e2 = Some m \<and> m \<noteq> [])) \<and>
   (ResultifyFailError v = Inr e3 \<longrightarrow>
      err_name e3 = Some ''ResultifyFailError'' \<and>
      (\<exists>m. err_message e3 = Some m \<and> m \<noteq> []))"
  by (cases "ToString v")
     (auto simp add: NaNError_def UnwrappedFailError_def ExpectFailError_def
        ResultifyFailError_def template_def)

theorem failure_kinds_name_and_message_witness:
  "UnwrappedFailError (JString ''L'') =
     Inr (JError UnwrappedFailError_class ''UnwrappedFailError''
            ''Attempted to unwrap Fail with inner error = L)'') \<and>
   err_name (JError UnwrappedFailError_class ''UnwrappedFailError''
            ''Attempted to unwrap Fail with inner error = L)'') = Some ''UnwrappedFailError'' \<and>
   err_message (JError UnwrappedFailError_class ''UnwrappedFailError''
            ''Attempted to unwrap Fail with inner error = L)'') \<noteq> Some []"
  using failure_kinds_name_and_message [of "JString ''L''"
     "JError UnwrappedFailError_class ''UnwrappedFailError''
            ''Attempted to unwrap Fail with inner error = L)''"]
  by (simp add: UnwrappedFailError_def template_def)

end
